theory Spec2Isabelle
  imports Complex_Main "HOL-Library.Char_ord" "HOL-Library.List_Lexorder"
begin

section \<open>Data model of \<^verbatim>\<open>q2.py\<close>\<close>

text \<open>
  The enumeration \<^verbatim>\<open>AlertLevel\<close>. Each member carries a string value; the
  upgrade test of \<^verbatim>\<open>handle_alerts\<close> compares these strings with Python's \<^verbatim>\<open><\<close>,
  which is the lexicographic order on code points.
\<close>

datatype AlertLevel = P0 | P1 | P2 | NO_ALERT

fun level_value :: "AlertLevel \<Rightarrow> string" where
  "level_value P0 = ''P0 (Critical)''"
| "level_value P1 = ''P1 (Major)''"
| "level_value P2 = ''P2 (Minor)''"
| "level_value NO_ALERT = ''No Alert''"

text \<open>
  Python raises \<^verbatim>\<open>KeyError\<close> when a dictionary is indexed with a key it does not
  hold. It is the only exception the modelled code can raise.
\<close>

datatype error = KeyError AlertLevel

definition getitem :: "(AlertLevel \<rightharpoonup> 'v) \<Rightarrow> AlertLevel \<Rightarrow> error + 'v" where
  "getitem d k = (case d k of None \<Rightarrow> Inl (KeyError k) | Some v \<Rightarrow> Inr v)"

text \<open>
  \<^verbatim>\<open>ALERT_THRESHOLDS\<close>: the inner dictionaries all have the two literal keys
  \<^verbatim>\<open>"latency"\<close> and \<^verbatim>\<open>"failure_rate"\<close> and are read with these literals only, so
  they are records here. The outer dictionary has no entry for \<^verbatim>\<open>NO_ALERT\<close>.
\<close>

record threshold =
  latency :: real
  failure_rate :: real

definition ALERT_THRESHOLDS :: "AlertLevel \<rightharpoonup> threshold" where
  "ALERT_THRESHOLDS =
     [P0 \<mapsto> \<lparr>latency = 2000, failure_rate = 10\<rparr>,
      P1 \<mapsto> \<lparr>latency = 1000, failure_rate = 5\<rparr>,
      P2 \<mapsto> \<lparr>latency = 500, failure_rate = 2\<rparr>]"

text \<open>\<^verbatim>\<open>ALERT_REPEAT_TIMES\<close>, in seconds; again no entry for \<^verbatim>\<open>NO_ALERT\<close>.\<close>

definition ALERT_REPEAT_TIMES :: "AlertLevel \<rightharpoonup> int" where
  "ALERT_REPEAT_TIMES = [P0 \<mapsto> 2, P1 \<mapsto> 12, P2 \<mapsto> 48]"

text \<open>
  Time. A \<^verbatim>\<open>datetime\<close> is a whole number of microseconds, and so is a
  \<^verbatim>\<open>timedelta\<close>; \<^verbatim>\<open>timedelta(seconds=n)\<close> is \<open>n\<close> million microseconds.
\<close>

type_synonym time = int

definition timedelta_seconds :: "int \<Rightarrow> time" where
  "timedelta_seconds n = n * 1000000"

text \<open>
  The code reads the wall clock with \<^verbatim>\<open>datetime.now()\<close>, several times in one call.
  The clock is the sequence of values these reads return, and the I/O state counts the
  reads made so far and holds the lines printed so far.
\<close>

type_synonym clock = "nat \<Rightarrow> time"

text \<open>
  One constructor for each \<^verbatim>\<open>print\<close> of the program. The leading time is the value
  \<^verbatim>\<open>get_time()\<close> formatted into the line.
\<close>

datatype line =
    Status time real real AlertLevel
  | Resolved time AlertLevel
  | NoActive time
  | Email time AlertLevel string
  | Triggered time AlertLevel
  | Upgrading time AlertLevel
  | Resending time AlertLevel
  | PRMerged time string

record io =
  ticks :: nat
  printed :: "line list"

definition datetime_now :: "clock \<Rightarrow> io \<Rightarrow> time \<times> io" where
  "datetime_now clk w = (clk (ticks w), w\<lparr>ticks := Suc (ticks w)\<rparr>)"

text \<open>
  \<^verbatim>\<open>get_time\<close> formats \<^verbatim>\<open>datetime.now()\<close> with \<^verbatim>\<open>%Y-%m-%d %H:%M:%S\<close>, which
  drops the microseconds.
\<close>

definition strftime :: "time \<Rightarrow> time" where
  "strftime t = t div 1000000 * 1000000"

definition get_time :: "clock \<Rightarrow> io \<Rightarrow> time \<times> io" where
  "get_time clk w = (case datetime_now clk w of (t, w') \<Rightarrow> (strftime t, w'))"

definition print :: "line \<Rightarrow> io \<Rightarrow> io" where
  "print l w = w\<lparr>printed := printed w @ [l]\<rparr>"

subsection \<open>Class \<^verbatim>\<open>Alert\<close>\<close>

record Alert =
  alert_level :: AlertLevel
  trigger_time :: time
  last_notified :: time

text \<open>\<^verbatim>\<open>Alert.__init__\<close> reads the clock twice, once for each timestamp.\<close>

definition Alert_init :: "AlertLevel \<Rightarrow> clock \<Rightarrow> io \<Rightarrow> Alert \<times> io" where
  "Alert_init lvl clk w =
     (case datetime_now clk w of (t1, w1) \<Rightarrow>
      case datetime_now clk w1 of (t2, w2) \<Rightarrow>
        (\<lparr>alert_level = lvl, trigger_time = t1, last_notified = t2\<rparr>, w2))"

definition update_last_notified :: "Alert \<Rightarrow> clock \<Rightarrow> io \<Rightarrow> Alert \<times> io" where
  "update_last_notified a clk w =
     (case datetime_now clk w of (t, w') \<Rightarrow> (a\<lparr>last_notified := t\<rparr>, w'))"

definition time_since_trigger :: "Alert \<Rightarrow> clock \<Rightarrow> io \<Rightarrow> time \<times> io" where
  "time_since_trigger a clk w =
     (case datetime_now clk w of (t, w') \<Rightarrow> (t - trigger_time a, w'))"

definition time_since_last_notified :: "Alert \<Rightarrow> clock \<Rightarrow> io \<Rightarrow> time \<times> io" where
  "time_since_last_notified a clk w =
     (case datetime_now clk w of (t, w') \<Rightarrow> (t - last_notified a, w'))"

subsection \<open>Class \<^verbatim>\<open>CloudMonitor\<close>\<close>

record CloudMonitor =
  current_alert :: "Alert option"
  log_history :: "line list"

definition CloudMonitor_init :: CloudMonitor where
  "CloudMonitor_init = \<lparr>current_alert = None, log_history = []\<rparr>"

text \<open>
  \<^verbatim>\<open>classify_alert\<close>: three tests, most severe first, each an \<^verbatim>\<open>or\<close> of two strict
  comparisons. Every threshold is fetched from the dictionary when its test is reached.
\<close>

definition exceeds :: "threshold \<Rightarrow> real \<Rightarrow> real \<Rightarrow> bool" where
  "exceeds th lat fr \<longleftrightarrow> lat > latency th \<or> fr > failure_rate th"

definition classify_alert :: "real \<Rightarrow> real \<Rightarrow> error + AlertLevel" where
  "classify_alert lat fr =
     (case getitem ALERT_THRESHOLDS P0 of Inl e \<Rightarrow> Inl e | Inr t0 \<Rightarrow>
      if exceeds t0 lat fr then Inr P0
      else case getitem ALERT_THRESHOLDS P1 of Inl e \<Rightarrow> Inl e | Inr t1 \<Rightarrow>
      if exceeds t1 lat fr then Inr P1
      else case getitem ALERT_THRESHOLDS P2 of Inl e \<Rightarrow> Inl e | Inr t2 \<Rightarrow>
      if exceeds t2 lat fr then Inr P2
      else Inr NO_ALERT)"

text \<open>
  \<^verbatim>\<open>resolve_alert\<close> prints one of two lines and clears the current alert.
\<close>

definition resolve_alert :: "clock \<Rightarrow> CloudMonitor \<times> io \<Rightarrow> CloudMonitor \<times> io" where
  "resolve_alert clk s =
     (case s of (m, w) \<Rightarrow>
      case current_alert m of
        Some a \<Rightarrow>
          (case get_time clk w of (t, w1) \<Rightarrow>
             (m\<lparr>current_alert := None\<rparr>, print (Resolved t (alert_level a)) w1))
      | None \<Rightarrow>
          (case get_time clk w of (t, w1) \<Rightarrow> (m, print (NoActive t) w1)))"

text \<open>\<^verbatim>\<open>send_email\<close> is a mock: it prints the level and the recipient.\<close>

definition send_email :: "AlertLevel \<Rightarrow> string \<Rightarrow> clock \<Rightarrow> io \<Rightarrow> io" where
  "send_email lvl recipient clk w =
     (case get_time clk w of (t, w1) \<Rightarrow> print (Email t lvl recipient) w1)"

text \<open>
  \<^verbatim>\<open>log_status\<close> prints the message, appends it to \<^verbatim>\<open>log_history\<close> and, when the
  history is then longer than \<^verbatim>\<open>90 * 24 * 12\<close>, removes its first element
  (\<^verbatim>\<open>pop(0)\<close>).
\<close>

definition log_status ::
  "clock \<Rightarrow> real \<Rightarrow> real \<Rightarrow> AlertLevel \<Rightarrow> CloudMonitor \<times> io \<Rightarrow> CloudMonitor \<times> io" where
  "log_status clk lat fr lvl s =
     (case s of (m, w) \<Rightarrow>
      case get_time clk w of (timestamp, w1) \<Rightarrow>
        let log_message = Status timestamp lat fr lvl;
            w2 = print log_message w1;
            h = log_history m @ [log_message]
        in (m\<lparr>log_history := (if length h > 90 * 24 * 12 then tl h else h)\<rparr>, w2))"

text \<open>
  \<^verbatim>\<open>simulate_pr_merge\<close>: the commit hash comes from \<^verbatim>\<open>secrets.token_hex\<close> and is a
  parameter here.
\<close>

definition simulate_pr_merge :: "string \<Rightarrow> clock \<Rightarrow> io \<Rightarrow> io" where
  "simulate_pr_merge commit_hash clk w =
     (case get_time clk w of (t, w1) \<Rightarrow> print (PRMerged t commit_hash) w1)"

text \<open>
  \<^verbatim>\<open>handle_alerts\<close>, after the early return for \<^verbatim>\<open>NO_ALERT\<close>, is three statements
  in sequence. The first is the \<^verbatim>\<open>if\<close>/\<^verbatim>\<open>elif\<close> chain: open a new alert, upgrade
  the open one, or resend for the open one. In each comparison Python evaluates the
  left operand (a clock read) before the right one (the dictionary lookup).
\<close>

definition alert_chain ::
  "clock \<Rightarrow> AlertLevel \<Rightarrow> CloudMonitor \<times> io \<Rightarrow> error + CloudMonitor \<times> io" where
  "alert_chain clk new_alert_level s =
     (case s of (m, w) \<Rightarrow>
      case current_alert m of
        None \<Rightarrow>
          (case get_time clk w of (t, w1) \<Rightarrow>
           case Alert_init new_alert_level clk (print (Triggered t new_alert_level) w1) of
             (a, w2) \<Rightarrow>
               Inr (m\<lparr>current_alert := Some a\<rparr>,
                    send_email new_alert_level ''team@company.com'' clk w2))
      | Some cur \<Rightarrow>
          if level_value new_alert_level < level_value (alert_level cur) then
            (case get_time clk w of (t, w1) \<Rightarrow>
             case Alert_init new_alert_level clk (print (Upgrading t new_alert_level) w1) of
               (a, w2) \<Rightarrow>
                 Inr (m\<lparr>current_alert := Some a\<rparr>,
                      send_email new_alert_level ''team@company.com'' clk w2))
          else if new_alert_level = alert_level cur then
            (case time_since_last_notified cur clk w of (d, w1) \<Rightarrow>
             case getitem ALERT_REPEAT_TIMES new_alert_level of
               Inl e \<Rightarrow> Inl e
             | Inr secs \<Rightarrow>
                 if d \<ge> timedelta_seconds secs then
                   (case get_time clk w1 of (t, w2) \<Rightarrow>
                    case update_last_notified cur clk (print (Resending t new_alert_level) w2) of
                      (a, w3) \<Rightarrow>
                        Inr (m\<lparr>current_alert := Some a\<rparr>,
                             send_email new_alert_level ''team@company.com'' clk w3))
                 else Inr (m, w1))
          else Inr (m, w))"

text \<open>The second statement: notify the boss about a long-standing alert.\<close>

definition notify_boss :: "clock \<Rightarrow> CloudMonitor \<times> io \<Rightarrow> error + CloudMonitor \<times> io" where
  "notify_boss clk s =
     (case s of (m, w) \<Rightarrow>
      case current_alert m of
        None \<Rightarrow> Inr (m, w)
      | Some cur \<Rightarrow>
          (case time_since_trigger cur clk w of (d, w1) \<Rightarrow>
           case getitem ALERT_REPEAT_TIMES (alert_level cur) of
             Inl e \<Rightarrow> Inl e
           | Inr secs \<Rightarrow>
               if d \<ge> timedelta_seconds (secs * 5) then
                 Inr (m, send_email (alert_level cur) ''boss@company.com'' clk w1)
               else Inr (m, w1)))"

text \<open>
  The third statement: with an alert open, \<^verbatim>\<open>random.random()\<close> is drawn (the
  parameter \<open>rnd\<close>) and a PR merge is mocked when it is below \<open>0.1\<close>.
\<close>

definition pr_merge_roll ::
  "clock \<Rightarrow> real \<Rightarrow> string \<Rightarrow> CloudMonitor \<times> io \<Rightarrow> CloudMonitor \<times> io" where
  "pr_merge_roll clk rnd commit_hash s =
     (case s of (m, w) \<Rightarrow>
      if current_alert m \<noteq> None \<and> rnd < 0.1 then (m, simulate_pr_merge commit_hash clk w)
      else (m, w))"

definition handle_alerts ::
  "clock \<Rightarrow> real \<Rightarrow> string \<Rightarrow> real \<Rightarrow> real \<Rightarrow> CloudMonitor \<times> io \<Rightarrow> error + CloudMonitor \<times> io"
  where
  "handle_alerts clk rnd commit_hash lat fr s =
     (case s of (m, w) \<Rightarrow>
      case classify_alert lat fr of
        Inl e \<Rightarrow> Inl e
      | Inr new_alert_level \<Rightarrow>
          if new_alert_level = NO_ALERT then
            (if current_alert m \<noteq> None then Inr (resolve_alert clk (m, w)) else Inr (m, w))
          else
            (case alert_chain clk new_alert_level (m, w) of
               Inl e \<Rightarrow> Inl e
             | Inr s1 \<Rightarrow>
                 (case notify_boss clk s1 of
                    Inl e \<Rightarrow> Inl e
                  | Inr s2 \<Rightarrow> Inr (pr_merge_roll clk rnd commit_hash s2))))"

text \<open>
  \<^verbatim>\<open>monitor_system\<close>: the loop runs until it is interrupted. What the metric
  simulator, the random generator and the hash generator return in one iteration is a
  \<open>draw\<close>; the list holds the draws of the iterations that ran before the interrupt.
  \<^verbatim>\<open>time.sleep\<close> changes nothing but the clock, and the message printed at the
  interrupt is left out.
\<close>

record draw =
  d_latency :: real
  d_failure_rate :: real
  d_random :: real
  d_commit_hash :: string

fun monitor_loop :: "clock \<Rightarrow> draw list \<Rightarrow> CloudMonitor \<times> io \<Rightarrow> error + CloudMonitor \<times> io" where
  "monitor_loop clk [] s = Inr s"
| "monitor_loop clk (d # ds) s =
     (case classify_alert (d_latency d) (d_failure_rate d) of
        Inl e \<Rightarrow> Inl e
      | Inr lvl \<Rightarrow>
          (case handle_alerts clk (d_random d) (d_commit_hash d) (d_latency d) (d_failure_rate d)
                  (log_status clk (d_latency d) (d_failure_rate d) lvl s) of
             Inl e \<Rightarrow> Inl e
           | Inr s' \<Rightarrow> monitor_loop clk ds s'))"

definition monitor_system :: "clock \<Rightarrow> draw list \<Rightarrow> error + CloudMonitor \<times> io" where
  "monitor_system clk ds = monitor_loop clk ds (CloudMonitor_init, \<lparr>ticks = 0, printed = []\<rparr>)"

section \<open>Notions of the specification\<close>

text \<open>
  The specification orders the severities \<open>NONE < LOW < MAJOR < CRITICAL\<close>, that is
  \<open>NO_ALERT < P2 < P1 < P0\<close>, by an explicit rank. The code has no such rank.
\<close>

fun rank :: "AlertLevel \<Rightarrow> nat" where
  "rank NO_ALERT = 0"
| "rank P2 = 1"
| "rank P1 = 2"
| "rank P0 = 3"

text \<open>
  The lines a call printed, given the I/O state before and after it, and among them
  the notifications to one recipient.
\<close>

definition emitted :: "io \<Rightarrow> io \<Rightarrow> line list" where
  "emitted w w' = drop (length (printed w)) (printed w')"

fun is_notify :: "string \<Rightarrow> line \<Rightarrow> bool" where
  "is_notify r (Email t lvl r') = (r' = r)"
| "is_notify r _ = False"

fun is_email :: "line \<Rightarrow> bool" where
  "is_email (Email t lvl r) = True"
| "is_email _ = False"

definition notifies :: "string \<Rightarrow> io \<Rightarrow> io \<Rightarrow> line list" where
  "notifies r w w' = filter (is_notify r) (emitted w w')"

text \<open>
  A severity is triggered by a sample when the sample exceeds one of the two limits the
  threshold table has for it.
\<close>

definition triggered :: "AlertLevel \<Rightarrow> real \<Rightarrow> real \<Rightarrow> bool" where
  "triggered l lat fr =
     (case ALERT_THRESHOLDS l of None \<Rightarrow> False | Some th \<Rightarrow> exceeds th lat fr)"

text \<open>The two recipients the code writes to.\<close>

abbreviation primary_recipient :: string where
  "primary_recipient \<equiv> ''team@company.com''"

abbreviation secondary_recipient :: string where
  "secondary_recipient \<equiv> ''boss@company.com''"

text \<open>
  For the examples: the I/O state of a program that has not read the clock or printed
  yet, and a monitor with an empty log and an open alert.
\<close>

abbreviation io_start :: io where
  "io_start \<equiv> \<lparr>ticks = 0, printed = []\<rparr>"

abbreviation open_alert :: "AlertLevel \<Rightarrow> time \<Rightarrow> time \<Rightarrow> CloudMonitor" where
  "open_alert lvl t n \<equiv>
     \<lparr>current_alert = Some \<lparr>alert_level = lvl, trigger_time = t, last_notified = n\<rparr>,
        log_history = []\<rparr>"

text \<open>
  Two properties of a monitor: the open alert, if there is one, has a severity other
  than \<open>NO_ALERT\<close>; and it was not notified before it was triggered.
\<close>

definition level_ok :: "CloudMonitor \<Rightarrow> bool" where
  "level_ok m = (case current_alert m of None \<Rightarrow> True | Some a \<Rightarrow> alert_level a \<noteq> NO_ALERT)"


text \<open>
  The monitors the program can be in: a new \<^verbatim>\<open>CloudMonitor()\<close>, and whatever a call of
  one of its state-changing methods makes of a reachable monitor. Each call runs against
  its own clock; \<open>C\<close> says which clocks are considered.
\<close>

inductive reachable :: "(clock \<Rightarrow> bool) \<Rightarrow> CloudMonitor \<Rightarrow> bool"
  for C :: "clock \<Rightarrow> bool" where
  init: "reachable C CloudMonitor_init"
| handled: "reachable C m \<Longrightarrow> C clk \<Longrightarrow> handle_alerts clk rnd h lat fr (m, w) = Inr (m', w')
     \<Longrightarrow> reachable C m'"
| logged: "reachable C m \<Longrightarrow> C clk \<Longrightarrow> log_status clk lat fr lvl (m, w) = (m', w')
     \<Longrightarrow> reachable C m'"
| resolved: "reachable C m \<Longrightarrow> C clk \<Longrightarrow> resolve_alert clk (m, w) = (m', w')
     \<Longrightarrow> reachable C m'"

text \<open>
  A line of the log records a draw when it is the status line of the draw's sample: its
  latency, its failure rate and the severity \<^verbatim>\<open>classify_alert\<close> gives them.
\<close>

fun records :: "line \<Rightarrow> draw \<Rightarrow> bool" where
  "records (Status t lat fr lvl) d \<longleftrightarrow>
     lat = d_latency d \<and> fr = d_failure_rate d \<and> classify_alert lat fr = Inr lvl"
| "records _ d \<longleftrightarrow> False"

section \<open>Basic facts\<close>

lemmas io_defs = datetime_now_def get_time_def print_def Alert_init_def update_last_notified_def
  time_since_trigger_def time_since_last_notified_def send_email_def simulate_pr_merge_def

lemma all_levels: "(\<forall>l. P l) \<longleftrightarrow> P P0 \<and> P P1 \<and> P P2 \<and> P NO_ALERT"
  by (metis AlertLevel.exhaust)

lemma getitem_thresholds:
  "getitem ALERT_THRESHOLDS P0 = Inr \<lparr>latency = 2000, failure_rate = 10\<rparr>"
  "getitem ALERT_THRESHOLDS P1 = Inr \<lparr>latency = 1000, failure_rate = 5\<rparr>"
  "getitem ALERT_THRESHOLDS P2 = Inr \<lparr>latency = 500, failure_rate = 2\<rparr>"
  by (simp_all add: getitem_def ALERT_THRESHOLDS_def)

lemma triggered_simps:
  "triggered P0 lat fr \<longleftrightarrow> lat > 2000 \<or> fr > 10"
  "triggered P1 lat fr \<longleftrightarrow> lat > 1000 \<or> fr > 5"
  "triggered P2 lat fr \<longleftrightarrow> lat > 500 \<or> fr > 2"
  "triggered NO_ALERT lat fr \<longleftrightarrow> False"
  by (simp_all add: triggered_def ALERT_THRESHOLDS_def exceeds_def)

text \<open>None of the three lookups of \<^verbatim>\<open>classify_alert\<close> can fail.\<close>

lemma classify_alert_eq:
  "classify_alert lat fr =
     Inr (if lat > 2000 \<or> fr > 10 then P0 else if lat > 1000 \<or> fr > 5 then P1
          else if lat > 500 \<or> fr > 2 then P2 else NO_ALERT)"
  by (simp add: classify_alert_def getitem_thresholds exceeds_def)

section \<open>The classifier\<close>

text \<open>
  Claim C2. \<^verbatim>\<open>classify_alert\<close> returns a severity for every pair of reals, negative
  ones included, and never raises. It returns \<open>NO_ALERT\<close> exactly when the sample
  triggers no severity; otherwise the severity it returns is triggered by the sample
  (one of its two limits is exceeded, strictly) and no triggered severity has a higher
  rank.
\<close>

theorem classify_alert_highest:
  "\<exists>lvl. classify_alert lat fr = Inr lvl \<and>
     (lvl = NO_ALERT \<longleftrightarrow> (\<forall>l. \<not> triggered l lat fr)) \<and>
     (lvl \<noteq> NO_ALERT \<longrightarrow>
        triggered lvl lat fr \<and> (\<forall>l. triggered l lat fr \<longrightarrow> rank l \<le> rank lvl))"
  by (auto simp add: classify_alert_eq all_levels triggered_simps)

text \<open>
  At the limits themselves nothing is exceeded: \<open>(2000, 10)\<close> is \<open>P1\<close>, not \<open>P0\<close>, and
  \<open>(500, 2)\<close> is \<open>NO_ALERT\<close>, as is a negative sample.
\<close>

theorem classify_alert_highest_witness:
  "classify_alert 2000 10 = Inr P1 \<and> triggered P1 2000 10 \<and> \<not> triggered P0 2000 10
   \<and> classify_alert 500 2 = Inr NO_ALERT \<and> classify_alert (- 1) (- 1) = Inr NO_ALERT"
  using classify_alert_highest [of 2000 10]
  by (simp add: classify_alert_eq triggered_simps)

section \<open>More basic facts\<close>

lemma repeat_times_simps [simp]:
  "ALERT_REPEAT_TIMES P0 = Some 2"
  "ALERT_REPEAT_TIMES P1 = Some 12"
  "ALERT_REPEAT_TIMES P2 = Some 48"
  "ALERT_REPEAT_TIMES NO_ALERT = None"
  by (simp_all add: ALERT_REPEAT_TIMES_def)


lemma repeat_times_defined:
  "l \<noteq> NO_ALERT \<Longrightarrow> \<exists>secs. ALERT_REPEAT_TIMES l = Some secs \<and> 0 < secs"
  by (cases l) simp_all

text \<open>
  On the three severities an alert can have, the order of the string values is the
  order of the ranks, reversed: \<open>''P0 ...'' < ''P1 ...'' < ''P2 ...''\<close>.
\<close>

lemma value_less_rank:
  "a \<noteq> NO_ALERT \<Longrightarrow> b \<noteq> NO_ALERT \<Longrightarrow> level_value a < level_value b \<longleftrightarrow> rank b < rank a"
  by (cases a; cases b; simp)

lemma rank_cases:
  assumes "a \<noteq> NO_ALERT" "b \<noteq> NO_ALERT"
  obtains (up) "rank a < rank b" | (same) "a = b" | (low) "rank b < rank a"
  using assms by (cases a; cases b; simp)

lemma mono_reads: "mono (clk :: clock) \<Longrightarrow> clk k \<le> clk (k + n)"
  by (erule monoD) simp

lemma emitted_upd [simp]:
  "emitted w (w\<lparr>ticks := k, printed := printed w @ xs\<rparr>) = xs"
  "emitted w (w\<lparr>ticks := k\<rparr>) = []"
  "emitted w w = []"
  by (simp_all add: emitted_def)

lemma notifies_upd [simp]:
  "notifies r w (w\<lparr>ticks := k, printed := printed w @ xs\<rparr>) = filter (is_notify r) xs"
  "notifies r w (w\<lparr>ticks := k\<rparr>) = []"
  "notifies r w w = []"
  by (simp_all add: notifies_def)

section \<open>A call, read by read\<close>

text \<open>
  The lemmas of this section compute what each statement of \<^verbatim>\<open>handle_alerts\<close>,
  and then the whole call, does against an arbitrary clock. The call starts in the I/O
  state \<open>w\<close>, so its first read of the clock is read number \<open>ticks w\<close>. The
  specification passes one time \<open>now\<close> to a call; that is the case of a clock whose
  reads all return \<open>now\<close>.
\<close>

lemma chain_none:
  "current_alert m = None \<Longrightarrow>
   alert_chain clk lvl (m, w) =
     Inr (m\<lparr>current_alert := Some \<lparr>alert_level = lvl, trigger_time = clk (ticks w + 1),
                                      last_notified = clk (ticks w + 2)\<rparr>\<rparr>,
          w\<lparr>ticks := ticks w + 4,
            printed := printed w @ [Triggered (strftime (clk (ticks w))) lvl,
                                     Email (strftime (clk (ticks w + 3))) lvl primary_recipient]\<rparr>)"
  by (simp add: alert_chain_def io_defs eval_nat_numeral)

lemma chain_upgrade:
  "current_alert m = Some a \<Longrightarrow> level_value lvl < level_value (alert_level a) \<Longrightarrow>
   alert_chain clk lvl (m, w) =
     Inr (m\<lparr>current_alert := Some \<lparr>alert_level = lvl, trigger_time = clk (ticks w + 1),
                                      last_notified = clk (ticks w + 2)\<rparr>\<rparr>,
          w\<lparr>ticks := ticks w + 4,
            printed := printed w @ [Upgrading (strftime (clk (ticks w))) lvl,
                                     Email (strftime (clk (ticks w + 3))) lvl primary_recipient]\<rparr>)"
  by (simp add: alert_chain_def io_defs eval_nat_numeral)

lemma chain_same:
  "current_alert m = Some a \<Longrightarrow> alert_level a = lvl \<Longrightarrow> ALERT_REPEAT_TIMES lvl = Some secs \<Longrightarrow>
   alert_chain clk lvl (m, w) =
     (if timedelta_seconds secs \<le> clk (ticks w) - last_notified a then
        Inr (m\<lparr>current_alert := Some (a\<lparr>last_notified := clk (ticks w + 2)\<rparr>)\<rparr>,
             w\<lparr>ticks := ticks w + 4,
               printed := printed w @ [Resending (strftime (clk (ticks w + 1))) lvl,
                                        Email (strftime (clk (ticks w + 3))) lvl primary_recipient]\<rparr>)
      else Inr (m, w\<lparr>ticks := ticks w + 1\<rparr>))"
  by (simp add: alert_chain_def io_defs getitem_def eval_nat_numeral)

lemma boss:
  "current_alert m = Some a \<Longrightarrow> ALERT_REPEAT_TIMES (alert_level a) = Some secs \<Longrightarrow>
   notify_boss clk (m, w) =
     Inr (m, if timedelta_seconds (secs * 5) \<le> clk (ticks w) - trigger_time a
             then w\<lparr>ticks := ticks w + 2,
                    printed := printed w
                      @ [Email (strftime (clk (ticks w + 1))) (alert_level a) secondary_recipient]\<rparr>
             else w\<lparr>ticks := ticks w + 1\<rparr>)"
  by (simp add: notify_boss_def io_defs getitem_def)

lemma roll:
  "pr_merge_roll clk rnd h (m, w) =
     (m, if current_alert m \<noteq> None \<and> rnd < 0.1
         then w\<lparr>ticks := ticks w + 1, printed := printed w @ [PRMerged (strftime (clk (ticks w))) h]\<rparr>
         else w)"
  by (simp add: pr_merge_roll_def io_defs)

lemma chain_lower:
  "current_alert m = Some a \<Longrightarrow> \<not> level_value lvl < level_value (alert_level a) \<Longrightarrow>
   lvl \<noteq> alert_level a \<Longrightarrow> alert_chain clk lvl (m, w) = Inr (m, w)"
  by (simp add: alert_chain_def)

lemma handle_none:
  assumes "classify_alert lat fr = Inr lvl" "current_alert m = None"
    "ALERT_REPEAT_TIMES lvl = Some secs"
  shows "handle_alerts clk rnd h lat fr (m, w) =
     Inr (m\<lparr>current_alert := Some \<lparr>alert_level = lvl, trigger_time = clk (ticks w + 1),
                                      last_notified = clk (ticks w + 2)\<rparr>\<rparr>,
          w\<lparr>ticks := ticks w + 4
                  + (if timedelta_seconds (secs * 5) \<le> clk (ticks w + 4) - clk (ticks w + 1)
                     then 2 else 1)
                  + (if rnd < 0.1 then 1 else 0),
            printed := printed w
               @ [Triggered (strftime (clk (ticks w))) lvl,
                  Email (strftime (clk (ticks w + 3))) lvl primary_recipient]
               @ (if timedelta_seconds (secs * 5) \<le> clk (ticks w + 4) - clk (ticks w + 1)
                  then [Email (strftime (clk (ticks w + 5))) lvl secondary_recipient] else [])
               @ (if rnd < 0.1
                  then [PRMerged (strftime (clk (ticks w + 4 +
                     (if timedelta_seconds (secs * 5) \<le> clk (ticks w + 4) - clk (ticks w + 1)
                      then 2 else 1)))) h]
                  else [])\<rparr>)"
proof -
  have "lvl \<noteq> NO_ALERT" using assms(3) by (cases lvl) simp_all
  then show ?thesis
    using assms
    by (simp add: handle_alerts_def chain_none boss roll add_ac)
qed

lemma handle_upgrade:
  assumes "classify_alert lat fr = Inr lvl" "current_alert m = Some a"
    "level_value lvl < level_value (alert_level a)"
    "ALERT_REPEAT_TIMES lvl = Some secs"
  shows "handle_alerts clk rnd h lat fr (m, w) =
     Inr (m\<lparr>current_alert := Some \<lparr>alert_level = lvl, trigger_time = clk (ticks w + 1),
                                      last_notified = clk (ticks w + 2)\<rparr>\<rparr>,
          w\<lparr>ticks := ticks w + 4
                  + (if timedelta_seconds (secs * 5) \<le> clk (ticks w + 4) - clk (ticks w + 1)
                     then 2 else 1)
                  + (if rnd < 0.1 then 1 else 0),
            printed := printed w
               @ [Upgrading (strftime (clk (ticks w))) lvl,
                  Email (strftime (clk (ticks w + 3))) lvl primary_recipient]
               @ (if timedelta_seconds (secs * 5) \<le> clk (ticks w + 4) - clk (ticks w + 1)
                  then [Email (strftime (clk (ticks w + 5))) lvl secondary_recipient] else [])
               @ (if rnd < 0.1
                  then [PRMerged (strftime (clk (ticks w + 4 +
                     (if timedelta_seconds (secs * 5) \<le> clk (ticks w + 4) - clk (ticks w + 1)
                      then 2 else 1)))) h]
                  else [])\<rparr>)"
proof -
  have "lvl \<noteq> NO_ALERT" using assms(4) by (cases lvl) simp_all
  then show ?thesis
    using assms
    by (simp add: handle_alerts_def chain_upgrade boss roll add_ac)
qed

lemma handle_resend:
  assumes "classify_alert lat fr = Inr lvl" "current_alert m = Some a" "alert_level a = lvl"
    "ALERT_REPEAT_TIMES lvl = Some secs"
    "timedelta_seconds secs \<le> clk (ticks w) - last_notified a"
  shows "handle_alerts clk rnd h lat fr (m, w) =
     Inr (m\<lparr>current_alert := Some (a\<lparr>last_notified := clk (ticks w + 2)\<rparr>)\<rparr>,
          w\<lparr>ticks := ticks w + 4
                  + (if timedelta_seconds (secs * 5) \<le> clk (ticks w + 4) - trigger_time a
                     then 2 else 1)
                  + (if rnd < 0.1 then 1 else 0),
            printed := printed w
               @ [Resending (strftime (clk (ticks w + 1))) lvl,
                  Email (strftime (clk (ticks w + 3))) lvl primary_recipient]
               @ (if timedelta_seconds (secs * 5) \<le> clk (ticks w + 4) - trigger_time a
                  then [Email (strftime (clk (ticks w + 5))) lvl secondary_recipient] else [])
               @ (if rnd < 0.1
                  then [PRMerged (strftime (clk (ticks w + 4 +
                     (if timedelta_seconds (secs * 5) \<le> clk (ticks w + 4) - trigger_time a
                      then 2 else 1)))) h]
                  else [])\<rparr>)"
proof -
  have "lvl \<noteq> NO_ALERT" using assms(4) by (cases lvl) simp_all
  then show ?thesis
    using assms
    by (simp add: handle_alerts_def chain_same boss roll add_ac)
qed

lemma handle_quiet:
  assumes "classify_alert lat fr = Inr lvl" "current_alert m = Some a" "alert_level a = lvl"
    "ALERT_REPEAT_TIMES lvl = Some secs"
    "\<not> timedelta_seconds secs \<le> clk (ticks w) - last_notified a"
  shows "handle_alerts clk rnd h lat fr (m, w) =
     Inr (m,
          w\<lparr>ticks := ticks w + 1
                  + (if timedelta_seconds (secs * 5) \<le> clk (ticks w + 1) - trigger_time a
                     then 2 else 1)
                  + (if rnd < 0.1 then 1 else 0),
            printed := printed w
               @ (if timedelta_seconds (secs * 5) \<le> clk (ticks w + 1) - trigger_time a
                  then [Email (strftime (clk (ticks w + 2))) lvl secondary_recipient] else [])
               @ (if rnd < 0.1
                  then [PRMerged (strftime (clk (ticks w + 1 +
                     (if timedelta_seconds (secs * 5) \<le> clk (ticks w + 1) - trigger_time a
                      then 2 else 1)))) h]
                  else [])\<rparr>)"
proof -
  have "lvl \<noteq> NO_ALERT" using assms(4) by (cases lvl) simp_all
  then show ?thesis
    using assms
    by (simp add: handle_alerts_def chain_same boss roll add_ac)
qed

lemma handle_lower:
  assumes "classify_alert lat fr = Inr lvl" "lvl \<noteq> NO_ALERT" "current_alert m = Some a"
    "\<not> level_value lvl < level_value (alert_level a)" "lvl \<noteq> alert_level a"
    "ALERT_REPEAT_TIMES (alert_level a) = Some secs"
  shows "handle_alerts clk rnd h lat fr (m, w) =
     Inr (m,
          w\<lparr>ticks := ticks w
                  + (if timedelta_seconds (secs * 5) \<le> clk (ticks w) - trigger_time a
                     then 2 else 1)
                  + (if rnd < 0.1 then 1 else 0),
            printed := printed w
               @ (if timedelta_seconds (secs * 5) \<le> clk (ticks w) - trigger_time a
                  then [Email (strftime (clk (ticks w + 1))) (alert_level a) secondary_recipient]
                  else [])
               @ (if rnd < 0.1
                  then [PRMerged (strftime (clk (ticks w +
                     (if timedelta_seconds (secs * 5) \<le> clk (ticks w) - trigger_time a
                      then 2 else 1)))) h]
                  else [])\<rparr>)"
  using assms by (simp add: handle_alerts_def chain_lower boss roll add_ac)

subsection \<open>Opening and escalating\<close>

text \<open>
  Claim C1, as amended. Take a monitor whose open alert, if any, has a severity other
  than \<open>NO_ALERT\<close> (every reachable monitor is one, see \<open>reachable_level_ok\<close>), and a
  sample that classifies as \<open>lvl\<close>, not \<open>NO_ALERT\<close>. The call returns, whatever the
  clock. With no alert open, the monitor then holds a new alert of severity \<open>lvl\<close>
  whose \<open>trigger_time\<close> is the second read of the call and whose \<open>last_notified\<close> is
  the third, and exactly one notification went to the primary recipient, at \<open>lvl\<close>.
  With an alert open and the rank of \<open>lvl\<close> strictly above the rank of its severity,
  the same holds: the alert is replaced by such a new one. With an alert open and the
  rank of \<open>lvl\<close> not above, the open alert keeps its severity and its
  \<open>trigger_time\<close>. And when the clock is monotone and the open alert was not notified
  before it was triggered, the monitor ends with such a new alert and exactly one
  primary notification if and only if the rank of \<open>lvl\<close> is strictly above.
\<close>

theorem handle_alerts_open_or_escalate:
  assumes cls: "classify_alert lat fr = Inr lvl" and non: "lvl \<noteq> NO_ALERT"
    and lok: "level_ok m"
  shows "\<exists>m' w'. handle_alerts clk rnd h lat fr (m, w) = Inr (m', w') \<and>
    (case current_alert m of
       None \<Rightarrow>
         current_alert m' = Some \<lparr>alert_level = lvl, trigger_time = clk (ticks w + 1),
                                   last_notified = clk (ticks w + 2)\<rparr>
         \<and> notifies primary_recipient w w'
             = [Email (strftime (clk (ticks w + 3))) lvl primary_recipient]
     | Some a \<Rightarrow>
         (rank (alert_level a) < rank lvl \<longrightarrow>
            current_alert m' = Some \<lparr>alert_level = lvl, trigger_time = clk (ticks w + 1),
                                      last_notified = clk (ticks w + 2)\<rparr>
            \<and> notifies primary_recipient w w'
                = [Email (strftime (clk (ticks w + 3))) lvl primary_recipient])
         \<and> (\<not> rank (alert_level a) < rank lvl \<longrightarrow>
              (\<exists>a'. current_alert m' = Some a' \<and> alert_level a' = alert_level a
                 \<and> trigger_time a' = trigger_time a))
         \<and> (mono clk \<and> trigger_time a \<le> last_notified a \<longrightarrow>
              ((current_alert m' = Some \<lparr>alert_level = lvl, trigger_time = clk (ticks w + 1),
                                          last_notified = clk (ticks w + 2)\<rparr>
                \<and> length (notifies primary_recipient w w') = 1)
               \<longleftrightarrow> rank (alert_level a) < rank lvl)))"
proof -
  from repeat_times_defined [OF non] obtain secs'
    where secs': "ALERT_REPEAT_TIMES lvl = Some secs'" "0 < secs'" by blast
  show ?thesis
  proof (cases "current_alert m")
    case None
    then show ?thesis
      using handle_none [OF cls None secs'(1), of clk rnd h w] by simp
  next
    case (Some a)
    from lok Some have a_non: "alert_level a \<noteq> NO_ALERT"
      by (simp add: level_ok_def)
    from repeat_times_defined [OF a_non] obtain secs
      where secs: "ALERT_REPEAT_TIMES (alert_level a) = Some secs" "0 < secs" by blast
    from a_non non show ?thesis
    proof (cases rule: rank_cases)
      case up
      then have "level_value lvl < level_value (alert_level a)"
        using non a_non by (simp add: value_less_rank)
      from handle_upgrade [OF cls Some this secs'(1), of clk rnd h w] up Some
      show ?thesis by simp
    next
      case same
      have "trigger_time a \<noteq> clk (ticks w + 1)"
        if "timedelta_seconds secs \<le> clk (ticks w) - last_notified a"
          "mono clk" "trigger_time a \<le> last_notified a"
        using that secs(2) mono_reads [OF that(2), of "ticks w" 1]
        by (simp add: timedelta_seconds_def)
      then have "a\<lparr>last_notified := clk (ticks w + 2)\<rparr>
          \<noteq> \<lparr>alert_level = lvl, trigger_time = clk (ticks w + 1),
               last_notified = clk (ticks w + 2)\<rparr>"
        if "timedelta_seconds secs \<le> clk (ticks w) - last_notified a"
          "mono clk" "trigger_time a \<le> last_notified a"
        using that by (cases a) auto
      note fresh = this
      have secs_l: "ALERT_REPEAT_TIMES lvl = Some secs" using secs(1) same by simp
      show ?thesis
      proof (cases "timedelta_seconds secs \<le> clk (ticks w) - last_notified a")
        case True
        from handle_resend [where clk = clk and w = w and rnd = rnd and h = h,
            OF cls Some same secs_l True] fresh same Some True
        show ?thesis by auto
      next
        case False
        from handle_quiet [where clk = clk and w = w and rnd = rnd and h = h,
            OF cls Some same secs_l False] same Some
        show ?thesis by auto
      qed
    next
      case low
      then have nl: "\<not> level_value lvl < level_value (alert_level a)"
        and ne: "lvl \<noteq> alert_level a"
        using non a_non by (auto simp add: value_less_rank)
      from handle_lower [OF cls non Some nl ne secs(1), of clk rnd h w] low Some
      show ?thesis by simp
    qed
  qed
qed

text \<open>
  An open \<open>P2\<close> alert and a sample that classifies as \<open>P0\<close>, against a clock that is at
  5 s and advances by a microsecond at each read, the call starting at read 3.
\<close>

theorem handle_alerts_open_or_escalate_witness:
  "classify_alert 2500 0 = Inr P0
   \<and> level_ok (open_alert P2 0 0)
   \<and> mono (\<lambda>n. 5000000 + int n)
   \<and> (\<exists>m' w'. handle_alerts (\<lambda>n. 5000000 + int n) (1 / 2) [] 2500 0
          (open_alert P2 0 0, \<lparr>ticks = 3, printed = []\<rparr>) = Inr (m', w')
        \<and> current_alert m'
            = Some \<lparr>alert_level = P0, trigger_time = 5000004, last_notified = 5000005\<rparr>
        \<and> notifies primary_recipient \<lparr>ticks = 3, printed = []\<rparr> w'
            = [Email 5000000 P0 primary_recipient])"
  using handle_alerts_open_or_escalate [where lat = 2500 and fr = 0 and lvl = P0
      and m = "open_alert P2 0 0" and clk = "\<lambda>n. 5000000 + int n"
      and rnd = "1 / 2" and h = "[]" and w = "\<lparr>ticks = 3, printed = []\<rparr>"]
  by (auto simp add: classify_alert_eq level_ok_def strftime_def mono_def)

text \<open>
  Claim C1 as it is written says that the new alert has \<open>opened_at = last_notified_at
  = now\<close>. \<^verbatim>\<open>Alert.__init__\<close> reads the clock once for each timestamp: against the
  same advancing clock a new monitor fed a \<open>P0\<close> sample gets an alert triggered at
  5.000001 s and last notified at 5.000002 s.
\<close>

theorem open_stamps_differ_counterexample:
  "classify_alert 2500 0 = Inr P0
   \<and> handle_alerts (\<lambda>n. 5000000 + int n) (1 / 2) [] 2500 0 (CloudMonitor_init, io_start)
      = Inr (open_alert P0 5000001 5000002,
             \<lparr>ticks = 5,
                printed = [Triggered 5000000 P0, Email 5000000 P0 primary_recipient]\<rparr>)
   \<and> trigger_time \<lparr>alert_level = P0, trigger_time = 5000001, last_notified = 5000002\<rparr>
      \<noteq> last_notified \<lparr>alert_level = P0, trigger_time = 5000001, last_notified = 5000002\<rparr>"
  by (simp add: classify_alert_eq handle_alerts_def alert_chain_def notify_boss_def
      pr_merge_roll_def io_defs getitem_def timedelta_seconds_def strftime_def
      CloudMonitor_init_def)

subsection \<open>Resending\<close>

text \<open>
  Claim C3, as amended. Take a sample that classifies at exactly the severity of the
  open alert, with resend interval \<open>secs\<close> seconds. The call returns, whatever the
  clock. It decides on its first read \<open>t\<close>: if \<open>t - last_notified\<close> is at least the
  interval, the alert's \<open>last_notified\<close> becomes the third read of the call (nothing
  else of it changes) and exactly one notification goes to the primary recipient;
  otherwise the alert is unchanged and no notification goes to the primary recipient.
  So with \<open>t\<close> one microsecond before the interval elapses there is no primary
  notification, and with \<open>t\<close> at the interval there is exactly one. The secondary
  recipient is notified, once, exactly when the read of the secondary check (the fifth
  of the call after a resend, the second otherwise) is at least five intervals after
  \<open>trigger_time\<close>; and the call sends no other e-mail.
\<close>

theorem handle_alerts_resend:
  assumes cls: "classify_alert lat fr = Inr lvl" and cur: "current_alert m = Some a"
    and same: "alert_level a = lvl" and secs: "ALERT_REPEAT_TIMES lvl = Some secs"
  shows "\<exists>m' w'. handle_alerts clk rnd h lat fr (m, w) = Inr (m', w') \<and>
    (if timedelta_seconds secs \<le> clk (ticks w) - last_notified a
     then current_alert m' = Some (a\<lparr>last_notified := clk (ticks w + 2)\<rparr>)
          \<and> notifies primary_recipient w w'
              = [Email (strftime (clk (ticks w + 3))) lvl primary_recipient]
          \<and> notifies secondary_recipient w w' =
               (if timedelta_seconds (secs * 5) \<le> clk (ticks w + 4) - trigger_time a
                then [Email (strftime (clk (ticks w + 5))) lvl secondary_recipient] else [])
     else current_alert m' = Some a
          \<and> notifies primary_recipient w w' = []
          \<and> notifies secondary_recipient w w' =
               (if timedelta_seconds (secs * 5) \<le> clk (ticks w + 1) - trigger_time a
                then [Email (strftime (clk (ticks w + 2))) lvl secondary_recipient] else []))
    \<and> filter is_email (emitted w w') =
         notifies primary_recipient w w' @ notifies secondary_recipient w w'
    \<and> (clk (ticks w) = last_notified a + timedelta_seconds secs - 1 \<longrightarrow>
         notifies primary_recipient w w' = [])
    \<and> (clk (ticks w) = last_notified a + timedelta_seconds secs \<longrightarrow>
         length (notifies primary_recipient w w') = 1)"
proof (cases "timedelta_seconds secs \<le> clk (ticks w) - last_notified a")
  case True
  from handle_resend [where clk = clk and w = w and rnd = rnd and h = h, OF cls cur same secs True] cur True
  show ?thesis by auto
next
  case False
  from handle_quiet [where clk = clk and w = w and rnd = rnd and h = h, OF cls cur same secs False] cur False
  show ?thesis by auto
qed

text \<open>
  A \<open>P0\<close> alert (interval 2 s) last notified at 0 s and a \<open>P0\<close> sample, against clocks
  that advance by a microsecond at each read: with the first read of the call at 2 s
  the call resends; with it one microsecond earlier the call sends nothing, although
  its later reads are past the interval.
\<close>

theorem handle_alerts_resend_witness:
  "classify_alert 2500 0 = Inr P0 \<and> ALERT_REPEAT_TIMES P0 = Some 2
   \<and> (\<exists>m' w'. handle_alerts (\<lambda>n. 1999997 + int n) (1 / 2) [] 2500 0
          (open_alert P0 0 0, \<lparr>ticks = 3, printed = []\<rparr>) = Inr (m', w')
        \<and> current_alert m'
            = Some \<lparr>alert_level = P0, trigger_time = 0, last_notified = 2000002\<rparr>
        \<and> filter is_email (emitted \<lparr>ticks = 3, printed = []\<rparr> w')
            = [Email 2000000 P0 primary_recipient])
   \<and> (\<exists>m' w'. handle_alerts (\<lambda>n. 1999996 + int n) (1 / 2) [] 2500 0
          (open_alert P0 0 0, \<lparr>ticks = 3, printed = []\<rparr>) = Inr (m', w')
        \<and> current_alert m'
            = Some \<lparr>alert_level = P0, trigger_time = 0, last_notified = 0\<rparr>
        \<and> filter is_email (emitted \<lparr>ticks = 3, printed = []\<rparr> w') = [])"
  using handle_alerts_resend [where lat = 2500 and fr = 0 and lvl = P0
      and m = "open_alert P0 0 0"
      and a = "\<lparr>alert_level = P0, trigger_time = 0, last_notified = 0\<rparr>" and secs = 2
      and clk = "\<lambda>n. 1999997 + int n" and rnd = "1 / 2" and h = "[]"
      and w = "\<lparr>ticks = 3, printed = []\<rparr>"]
    handle_alerts_resend [where lat = 2500 and fr = 0 and lvl = P0
      and m = "open_alert P0 0 0"
      and a = "\<lparr>alert_level = P0, trigger_time = 0, last_notified = 0\<rparr>" and secs = 2
      and clk = "\<lambda>n. 1999996 + int n" and rnd = "1 / 2" and h = "[]"
      and w = "\<lparr>ticks = 3, printed = []\<rparr>"]
  by (auto simp add: classify_alert_eq timedelta_seconds_def strftime_def)

text \<open>
  Claim C3 as it is written says that a same-severity sample arriving one time unit
  before the interval elapses emits no notification at all. A \<open>P0\<close> alert triggered at
  0 s and last notified at 10 s, fed a \<open>P0\<close> sample one microsecond before 12 s, has been
  open for five intervals: the call notifies the secondary recipient.
\<close>

theorem resend_any_notify_counterexample:
  "classify_alert 2500 0 = Inr P0 \<and> ALERT_REPEAT_TIMES P0 = Some 2
   \<and> 11999999 = 10000000 + timedelta_seconds 2 - 1
   \<and> handle_alerts (\<lambda>_. 11999999) (1 / 2) [] 2500 0 (open_alert P0 0 10000000, io_start)
      = Inr (open_alert P0 0 10000000,
             \<lparr>ticks = 3, printed = [Email 11000000 P0 secondary_recipient]\<rparr>)
   \<and> filter is_email (emitted io_start
         \<lparr>ticks = 3, printed = [Email 11000000 P0 secondary_recipient]\<rparr>) \<noteq> []"
  by (simp add: classify_alert_eq handle_alerts_def alert_chain_def notify_boss_def
      pr_merge_roll_def io_defs getitem_def timedelta_seconds_def strftime_def emitted_def)

subsection \<open>Notifying the secondary recipient\<close>

text \<open>
  Claim C4, as amended. Take an open alert with resend interval \<open>secs\<close> seconds and a
  sample that classifies as \<open>lvl\<close>, not \<open>NO_ALERT\<close>. The call returns, whatever the
  clock. If the rank of \<open>lvl\<close> is not above the rank of the alert's severity, the alert
  keeps its severity and its \<open>trigger_time\<close>, and the secondary recipient is notified,
  once and at the alert's severity, exactly when the read of the secondary check (the
  fifth of the call after a resend, the second after a resend test that failed, the
  first for a sample of another severity) is at least five intervals after
  \<open>trigger_time\<close>; with a monotone clock that is so whenever
  the first read of the call already is, so every such call notifies once the alert
  has been open that long. The primary recipient is notified besides exactly when a
  resend is due. If the rank of \<open>lvl\<close> is above, the alert is replaced first, with
  \<open>trigger_time\<close> the second read of the call, and the check looks at the new alert:
  the secondary recipient is notified exactly when the fifth read of the call is at
  least five intervals of \<open>lvl\<close> after the second, and so not when these two reads
  return the same time.
\<close>

theorem handle_alerts_secondary:
  assumes cls: "classify_alert lat fr = Inr lvl" and non: "lvl \<noteq> NO_ALERT"
    and cur: "current_alert m = Some a"
    and secs: "ALERT_REPEAT_TIMES (alert_level a) = Some secs"
  shows "\<exists>m' w'. handle_alerts clk rnd h lat fr (m, w) = Inr (m', w') \<and>
    (if rank (alert_level a) < rank lvl
     then current_alert m' = Some \<lparr>alert_level = lvl, trigger_time = clk (ticks w + 1),
                                    last_notified = clk (ticks w + 2)\<rparr>
        \<and> (\<exists>secs'. ALERT_REPEAT_TIMES lvl = Some secs'
              \<and> notifies secondary_recipient w w' =
                   (if timedelta_seconds (secs' * 5) \<le> clk (ticks w + 4) - clk (ticks w + 1)
                    then [Email (strftime (clk (ticks w + 5))) lvl secondary_recipient]
                    else []))
        \<and> (clk (ticks w + 4) = clk (ticks w + 1) \<longrightarrow> notifies secondary_recipient w w' = [])
     else (\<exists>a'. current_alert m' = Some a' \<and> alert_level a' = alert_level a
                  \<and> trigger_time a' = trigger_time a)
        \<and> notifies secondary_recipient w w' =
             (if lvl = alert_level a
              then (if timedelta_seconds secs \<le> clk (ticks w) - last_notified a
                    then (if timedelta_seconds (secs * 5) \<le> clk (ticks w + 4) - trigger_time a
                          then [Email (strftime (clk (ticks w + 5))) (alert_level a)
                                  secondary_recipient]
                          else [])
                    else (if timedelta_seconds (secs * 5) \<le> clk (ticks w + 1) - trigger_time a
                          then [Email (strftime (clk (ticks w + 2))) (alert_level a)
                                  secondary_recipient]
                          else []))
              else (if timedelta_seconds (secs * 5) \<le> clk (ticks w) - trigger_time a
                    then [Email (strftime (clk (ticks w + 1))) (alert_level a)
                            secondary_recipient]
                    else []))
        \<and> (mono clk \<and> timedelta_seconds (secs * 5) \<le> clk (ticks w) - trigger_time a \<longrightarrow>
             (\<exists>t. notifies secondary_recipient w w'
                     = [Email t (alert_level a) secondary_recipient]))
        \<and> notifies primary_recipient w w' =
             (if lvl = alert_level a \<and> timedelta_seconds secs \<le> clk (ticks w) - last_notified a
              then [Email (strftime (clk (ticks w + 3))) lvl primary_recipient] else []))"
proof -
  have a_non: "alert_level a \<noteq> NO_ALERT"
    using secs by (cases "alert_level a") simp_all
  from repeat_times_defined [OF non] obtain secs'
    where secs': "ALERT_REPEAT_TIMES lvl = Some secs'" "0 < secs'" by blast
  have old: "timedelta_seconds (secs * 5) \<le> clk (ticks w + n) - trigger_time a"
    if "mono clk" "timedelta_seconds (secs * 5) \<le> clk (ticks w) - trigger_time a" for n
    using that mono_reads [OF that(1), of "ticks w" n] by simp
  from a_non non show ?thesis
  proof (cases rule: rank_cases)
    case up
    then have "level_value lvl < level_value (alert_level a)"
      using non a_non by (simp add: value_less_rank)
    from handle_upgrade [OF cls cur this secs'(1), of clk rnd h w] up secs'
    show ?thesis by (simp add: timedelta_seconds_def)
  next
    case same
    have secs_l: "ALERT_REPEAT_TIMES lvl = Some secs" using secs same by simp
    show ?thesis
    proof (cases "timedelta_seconds secs \<le> clk (ticks w) - last_notified a")
      case True
      from handle_resend [where clk = clk and w = w and rnd = rnd and h = h, OF cls cur same secs_l True] same cur True old [of 4]
      show ?thesis by auto
    next
      case False
      from handle_quiet [where clk = clk and w = w and rnd = rnd and h = h, OF cls cur same secs_l False] same cur False old [of 1]
      show ?thesis by auto
    qed
  next
    case low
    then have nl: "\<not> level_value lvl < level_value (alert_level a)"
      and ne: "lvl \<noteq> alert_level a"
      using non a_non by (auto simp add: value_less_rank)
    from handle_lower [OF cls non cur nl ne secs, of clk rnd h w] low cur ne
    show ?thesis by simp
  qed
qed

text \<open>
  A \<open>P2\<close> alert (interval 48 s) triggered at 0 s and a \<open>P2\<close> sample, against a clock
  that advances by a microsecond at each read and is at 240 s on the first read of the
  call: a resend and a notification of the secondary recipient.
\<close>

theorem handle_alerts_secondary_witness:
  "classify_alert 600 0 = Inr P2 \<and> ALERT_REPEAT_TIMES P2 = Some 48
   \<and> mono (\<lambda>n. 239999997 + int n)
   \<and> (\<exists>m' w'. handle_alerts (\<lambda>n. 239999997 + int n) (1 / 2) [] 600 0
          (open_alert P2 0 0, \<lparr>ticks = 3, printed = []\<rparr>) = Inr (m', w')
        \<and> notifies secondary_recipient \<lparr>ticks = 3, printed = []\<rparr> w'
            = [Email 240000000 P2 secondary_recipient]
        \<and> notifies primary_recipient \<lparr>ticks = 3, printed = []\<rparr> w'
            = [Email 240000000 P2 primary_recipient])"
  using handle_alerts_secondary [where lat = 600 and fr = 0 and lvl = P2
      and m = "open_alert P2 0 0"
      and a = "\<lparr>alert_level = P2, trigger_time = 0, last_notified = 0\<rparr>" and secs = 48
      and clk = "\<lambda>n. 239999997 + int n" and rnd = "1 / 2" and h = "[]"
      and w = "\<lparr>ticks = 3, printed = []\<rparr>"]
  by (auto simp add: classify_alert_eq timedelta_seconds_def strftime_def mono_def)

text \<open>
  Claim C4 as it is written says that every call with a sample that is not \<open>NO_ALERT\<close>
  notifies the secondary recipient once the alert has been open for five intervals.
  The same \<open>P2\<close> alert at 240 s, fed a \<open>P0\<close> sample: the alert is upgraded and the
  secondary recipient is not notified.
\<close>

theorem secondary_on_escalation_counterexample:
  "classify_alert 2500 0 = Inr P0 \<and> ALERT_REPEAT_TIMES P2 = Some 48
   \<and> timedelta_seconds (48 * 5) \<le> 240000000 - 0
   \<and> handle_alerts (\<lambda>_. 240000000) (1 / 2) [] 2500 0 (open_alert P2 0 0, io_start)
      = Inr (open_alert P0 240000000 240000000,
             \<lparr>ticks = 5,
                printed = [Upgrading 240000000 P0, Email 240000000 P0 primary_recipient]\<rparr>)
   \<and> notifies secondary_recipient io_start
         \<lparr>ticks = 5,
            printed = [Upgrading 240000000 P0, Email 240000000 P0 primary_recipient]\<rparr> = []"
  by (simp add: classify_alert_eq handle_alerts_def alert_chain_def notify_boss_def
      pr_merge_roll_def io_defs getitem_def timedelta_seconds_def strftime_def emitted_def
      notifies_def)

section \<open>What a call can do to the monitor\<close>

lemma notify_boss_state: "notify_boss clk (m, w) = Inr (m', w') \<Longrightarrow> m' = m"
  by (auto simp add: notify_boss_def io_defs split: option.splits sum.splits if_splits)

lemma pr_merge_roll_state: "pr_merge_roll clk rnd h (m, w) = (m', w') \<Longrightarrow> m' = m"
  by (auto simp add: pr_merge_roll_def split: if_splits)

lemma notify_boss_total:
  "level_ok m \<Longrightarrow> \<exists>w'. notify_boss clk (m, w) = Inr (m, w')"
  by (cases "current_alert m")
     (auto simp add: notify_boss_def level_ok_def io_defs getitem_def dest!: repeat_times_defined)

lemma alert_chain_total:
  assumes "lvl \<noteq> NO_ALERT"
  shows "\<exists>m' w'. alert_chain clk lvl (m, w) = Inr (m', w')"
  using repeat_times_defined [OF assms]
  by (auto simp add: alert_chain_def io_defs getitem_def split: option.splits)

text \<open>
  What the \<^verbatim>\<open>if\<close>/\<^verbatim>\<open>elif\<close> chain can do to the monitor: nothing, install a new
  alert, or refresh \<open>last_notified\<close> of the open one when a resend is due.
\<close>

lemma alert_chain_cases:
  assumes "alert_chain clk lvl (m, w) = Inr (m', w')"
  shows "m' = m \<or>
    m' = m\<lparr>current_alert := Some \<lparr>alert_level = lvl, trigger_time = clk (Suc (ticks w)),
                                    last_notified = clk (Suc (Suc (ticks w)))\<rparr>\<rparr> \<or>
    (\<exists>a secs. current_alert m = Some a \<and> alert_level a = lvl
       \<and> ALERT_REPEAT_TIMES lvl = Some secs
       \<and> timedelta_seconds secs \<le> clk (ticks w) - last_notified a
       \<and> m' = m\<lparr>current_alert := Some (a\<lparr>last_notified := clk (Suc (Suc (ticks w)))\<rparr>)\<rparr>)"
  using assms
  by (auto simp add: alert_chain_def io_defs getitem_def split: option.splits if_splits)

lemma alert_chain_level:
  assumes "alert_chain clk lvl (m, w) = Inr (m', w')" "current_alert m = Some a"
  shows "\<exists>a'. current_alert m' = Some a' \<and>
     (alert_level a' = alert_level a \<or>
      alert_level a' = lvl \<and> level_value lvl < level_value (alert_level a))"
  using assms
  by (auto simp add: alert_chain_def io_defs split: sum.splits if_splits)

lemma handle_alerts_cases:
  assumes "handle_alerts clk rnd h lat fr (m, w) = Inr (m', w')"
  shows "m' = m \<or> m' = m\<lparr>current_alert := None\<rparr> \<or>
    (\<exists>lvl. lvl \<noteq> NO_ALERT \<and>
       m' = m\<lparr>current_alert := Some \<lparr>alert_level = lvl, trigger_time = clk (Suc (ticks w)),
                                    last_notified = clk (Suc (Suc (ticks w)))\<rparr>\<rparr>) \<or>
    (\<exists>a secs. current_alert m = Some a \<and> ALERT_REPEAT_TIMES (alert_level a) = Some secs
       \<and> timedelta_seconds secs \<le> clk (ticks w) - last_notified a
       \<and> m' = m\<lparr>current_alert := Some (a\<lparr>last_notified := clk (Suc (Suc (ticks w)))\<rparr>)\<rparr>)"
proof -
  obtain lvl where cls: "classify_alert lat fr = Inr lvl"
    by (simp add: classify_alert_eq)
  show ?thesis
  proof (cases "lvl = NO_ALERT")
    case True
    with assms cls show ?thesis
      by (auto simp add: handle_alerts_def resolve_alert_def io_defs
          split: option.splits if_splits)
  next
    case False
    with assms cls obtain m1 w1 w2 where
      c: "alert_chain clk lvl (m, w) = Inr (m1, w1)"
      and b: "notify_boss clk (m1, w1) = Inr (m1, w2)"
      and r: "pr_merge_roll clk rnd h (m1, w2) = (m', w')"
      by (auto simp add: handle_alerts_def split: sum.splits dest: notify_boss_state)
    from r have "m' = m1" by (rule pr_merge_roll_state)
    with alert_chain_cases [OF c] False show ?thesis by auto
  qed
qed

lemma handle_alerts_level_ok:
  "handle_alerts clk rnd h lat fr (m, w) = Inr (m', w') \<Longrightarrow> level_ok m \<Longrightarrow> level_ok m'"
  by (drule handle_alerts_cases) (auto simp add: level_ok_def split: option.splits)

lemma handle_alerts_log_history:
  "handle_alerts clk rnd h lat fr (m, w) = Inr (m', w') \<Longrightarrow> log_history m' = log_history m"
  by (drule handle_alerts_cases) auto

lemma handle_alerts_returns:
  assumes "level_ok m"
  shows "\<exists>m' w'. handle_alerts clk rnd h lat fr (m, w) = Inr (m', w')"
proof -
  obtain lvl where cls: "classify_alert lat fr = Inr lvl"
    by (simp add: classify_alert_eq)
  show ?thesis
  proof (cases "lvl = NO_ALERT")
    case True
    with cls show ?thesis
      by (cases "resolve_alert clk (m, w)") (simp add: handle_alerts_def)
  next
    case False
    from alert_chain_total [OF False] obtain m1 w1 where
      c: "alert_chain clk lvl (m, w) = Inr (m1, w1)" by blast
    have "level_ok m1"
      using alert_chain_cases [OF c] assms False
      by (auto simp add: level_ok_def split: option.splits)
    from notify_boss_total [OF this] obtain w2 where "notify_boss clk (m1, w1) = Inr (m1, w2)"
      by blast
    with c cls False show ?thesis
      by (cases "pr_merge_roll clk rnd h (m1, w2)") (simp add: handle_alerts_def)
  qed
qed

lemma reachable_level_ok: "reachable C m \<Longrightarrow> level_ok m"
proof (induction rule: reachable.induct)
  case init
  show ?case by (simp add: level_ok_def CloudMonitor_init_def)
next
  case (handled m clk rnd h lat fr w m' w')
  then show ?case by (auto dest: handle_alerts_level_ok)
next
  case (logged m clk lat fr lvl w m' w')
  then show ?case by (auto simp add: log_status_def level_ok_def io_defs Let_def)
next
  case (resolved m clk w m' w')
  then show ?case
    by (auto simp add: resolve_alert_def level_ok_def io_defs split: option.splits)
qed

lemma notify_boss_printed:
  "notify_boss clk (m, w) = Inr (m', w') \<Longrightarrow>
   \<exists>xs. printed w' = printed w @ xs \<and> filter (is_notify primary_recipient) xs = []"
  by (auto simp add: notify_boss_def io_defs split: option.splits sum.splits if_splits)

lemma pr_merge_roll_printed:
  "pr_merge_roll clk rnd h (m, w) = (m', w') \<Longrightarrow>
   \<exists>xs. printed w' = printed w @ xs \<and> filter (is_notify primary_recipient) xs = []"
  by (auto simp add: pr_merge_roll_def io_defs split: if_splits)

subsection \<open>No downgrade\<close>

text \<open>
  Claim C5. Take an open alert and a sample that classifies as \<open>lvl\<close>, not \<open>NO_ALERT\<close>.
  The call returns, whatever the clock. If the rank of \<open>lvl\<close> is strictly below the rank
  of the alert's severity, the monitor is left as it was, the alert with its severity
  and both timestamps included, and no notification goes to the primary recipient. In
  every case an alert is open afterwards and the rank of its severity is not below the
  rank before: only a \<open>NO_ALERT\<close> sample, which closes the alert, takes a severity away.
\<close>

theorem handle_alerts_no_downgrade:
  assumes cls: "classify_alert lat fr = Inr lvl" and non: "lvl \<noteq> NO_ALERT"
    and cur: "current_alert m = Some a" and a_non: "alert_level a \<noteq> NO_ALERT"
  shows "\<exists>m' w'. handle_alerts clk rnd h lat fr (m, w) = Inr (m', w') \<and>
    (rank lvl < rank (alert_level a) \<longrightarrow>
       m' = m \<and> current_alert m' = Some a \<and> notifies primary_recipient w w' = []) \<and>
    (\<exists>a'. current_alert m' = Some a' \<and> rank (alert_level a) \<le> rank (alert_level a'))"
proof -
  from alert_chain_total [OF non] obtain m1 w1 where
    c: "alert_chain clk lvl (m, w) = Inr (m1, w1)" by blast
  from alert_chain_level [OF c cur] obtain a' where
    a': "current_alert m1 = Some a'"
      "alert_level a' = alert_level a \<or>
       alert_level a' = lvl \<and> level_value lvl < level_value (alert_level a)" by blast
  then have "level_ok m1" using a_non non by (auto simp add: level_ok_def)
  from notify_boss_total [OF this] obtain w2 where
    b: "notify_boss clk (m1, w1) = Inr (m1, w2)" by blast
  obtain w3 where r: "pr_merge_roll clk rnd h (m1, w2) = (m1, w3)"
    by (cases "pr_merge_roll clk rnd h (m1, w2)") (auto dest: pr_merge_roll_state)
  have res: "handle_alerts clk rnd h lat fr (m, w) = Inr (m1, w3)"
    using cls non c b r by (simp add: handle_alerts_def)
  have up: "rank (alert_level a) \<le> rank (alert_level a')"
    using a'(2) non a_non by (auto simp add: value_less_rank)
  have low: "m1 = m \<and> notifies primary_recipient w w3 = []"
    if lt: "rank lvl < rank (alert_level a)"
  proof -
    from lt have "\<not> level_value lvl < level_value (alert_level a)" "lvl \<noteq> alert_level a"
      using non a_non by (auto simp add: value_less_rank)
    with c cur have "m1 = m" "w1 = w" by (simp_all add: chain_lower)
    moreover from notify_boss_printed [OF b] pr_merge_roll_printed [OF r]
    have "\<exists>xs. printed w3 = printed w1 @ xs \<and> filter (is_notify primary_recipient) xs = []"
      by auto
    ultimately show ?thesis by (auto simp add: notifies_def emitted_def)
  qed
  from res up low a'(1) cur show ?thesis by auto
qed

text \<open>An open \<open>P0\<close> alert and a \<open>P2\<close> sample, against a clock that advances at each read.\<close>

theorem handle_alerts_no_downgrade_witness:
  "classify_alert 600 0 = Inr P2
   \<and> (\<exists>m' w'. handle_alerts (\<lambda>n. int n) (1 / 2) [] 600 0
          (open_alert P0 0 0, io_start) = Inr (m', w')
        \<and> current_alert m' = Some \<lparr>alert_level = P0, trigger_time = 0, last_notified = 0\<rparr>
        \<and> notifies primary_recipient io_start w' = [])"
  using handle_alerts_no_downgrade [where lat = 600 and fr = 0 and lvl = P2
      and m = "open_alert P0 0 0"
      and a = "\<lparr>alert_level = P0, trigger_time = 0, last_notified = 0\<rparr>"
      and clk = "\<lambda>n. int n" and rnd = "1 / 2" and h = "[]" and w = io_start]
  by (auto simp add: classify_alert_eq)

subsection \<open>Resolution\<close>

text \<open>
  Claim C6. Take a sample that classifies as \<open>NO_ALERT\<close>. With no alert open the call
  returns the monitor and the I/O state as they were. With an alert open the call
  clears it, changes nothing else of the monitor, and prints no e-mail line, to no
  recipient.
\<close>

theorem handle_alerts_resolution:
  assumes cls: "classify_alert lat fr = Inr NO_ALERT"
  shows "(case current_alert m of
            None \<Rightarrow> handle_alerts clk rnd h lat fr (m, w) = Inr (m, w)
          | Some a \<Rightarrow>
              (\<exists>w'. handle_alerts clk rnd h lat fr (m, w) = Inr (m\<lparr>current_alert := None\<rparr>, w')
                 \<and> filter is_email (emitted w w') = []))"
  using cls
  by (simp add: handle_alerts_def resolve_alert_def io_defs emitted_def split: option.split)

text \<open>An open \<open>P1\<close> alert and the sample \<open>(0, 0)\<close>.\<close>

theorem handle_alerts_resolution_witness:
  "classify_alert 0 0 = Inr NO_ALERT
   \<and> (\<exists>w'. handle_alerts (\<lambda>_. 7000000) (1 / 2) [] 0 0 (open_alert P1 0 0, io_start)
        = Inr (\<lparr>current_alert = None, log_history = []\<rparr>, w')
        \<and> filter is_email (emitted io_start w') = [])"
  using handle_alerts_resolution [where lat = 0 and fr = 0
      and m = "open_alert P1 0 0"
      and clk = "\<lambda>_. 7000000" and rnd = "1 / 2" and h = "[]" and w = io_start]
  by (auto simp add: classify_alert_eq)

text \<open>
  Claim C10. With no alert open and a sample that classifies as \<open>NO_ALERT\<close>, the call
  returns the monitor and the I/O state unchanged, so nothing was printed; a second
  call with the same arguments on what the first returned does the same.
\<close>

theorem handle_alerts_idle_twice:
  assumes cls: "classify_alert lat fr = Inr NO_ALERT" and idle: "current_alert m = None"
  shows "\<exists>m1 w1 m2 w2.
      handle_alerts clk rnd h lat fr (m, w) = Inr (m1, w1) \<and>
      handle_alerts clk rnd h lat fr (m1, w1) = Inr (m2, w2) \<and>
      m1 = m \<and> w1 = w \<and> emitted w w1 = [] \<and>
      m2 = m \<and> w2 = w \<and> emitted w1 w2 = []"
  using cls idle by (simp add: handle_alerts_def)

text \<open>A new monitor and the sample \<open>(0, 0)\<close>.\<close>

theorem handle_alerts_idle_twice_witness:
  "classify_alert 0 0 = Inr NO_ALERT \<and> current_alert CloudMonitor_init = None
   \<and> handle_alerts (\<lambda>_. 7000000) (1 / 2) [] 0 0 (CloudMonitor_init, io_start)
      = Inr (CloudMonitor_init, io_start)"
  using handle_alerts_idle_twice [where lat = 0 and fr = 0 and m = CloudMonitor_init
      and clk = "\<lambda>_. 7000000" and rnd = "1 / 2" and h = "[]" and w = io_start]
  by (simp add: classify_alert_eq CloudMonitor_init_def)


subsection \<open>No failure\<close>

text \<open>
  Claim C9. In every reachable monitor (whatever the clocks of the calls that led to
  it) the open alert, if any, has one of the severities \<open>P2\<close>, \<open>P1\<close>, \<open>P0\<close>, so that
  its lookup in \<^verbatim>\<open>ALERT_REPEAT_TIMES\<close> succeeds; and \<^verbatim>\<open>handle_alerts\<close> returns
  a result, no \<^verbatim>\<open>KeyError\<close>, for every sample, clock, random draw and I/O state.
\<close>

theorem handle_alerts_total:
  assumes "reachable (\<lambda>_. True) m"
  shows "(\<exists>m' w'. handle_alerts clk rnd h lat fr (m, w) = Inr (m', w')) \<and>
    (case current_alert m of
       None \<Rightarrow> True
     | Some a \<Rightarrow> alert_level a \<in> {P2, P1, P0}
        \<and> (\<exists>secs. getitem ALERT_REPEAT_TIMES (alert_level a) = Inr secs))"
proof -
  from assms have ok: "level_ok m" by (rule reachable_level_ok)
  have "alert_level a \<in> {P2, P1, P0} \<and> (\<exists>secs. getitem ALERT_REPEAT_TIMES (alert_level a) = Inr secs)"
    if "current_alert m = Some a" for a
    using that ok by (cases "alert_level a") (simp_all add: level_ok_def getitem_def)
  with handle_alerts_returns [OF ok, of clk rnd h lat fr w] show ?thesis
    by (simp split: option.split)
qed

text \<open>
  The monitor a new one becomes on a \<open>P0\<close> sample, then fed a \<open>P2\<close> sample against a
  clock that runs backwards.
\<close>

theorem handle_alerts_total_witness:
  "reachable (\<lambda>_. True)
     (open_alert P0 1 2)
   \<and> (\<exists>m' w'. handle_alerts (\<lambda>n. 3000000 - int n) (1 / 20) ''c0ffee'' 600 (1 / 100)
          (open_alert P0 1 2,
           io_start) = Inr (m', w'))"
proof -
  let ?m = "open_alert P0 1 2"
  have "handle_alerts (\<lambda>n. int n) (1 / 2) [] 2500 0
          (CloudMonitor_init, io_start)
    = Inr (?m, \<lparr>ticks = 5, printed = [Triggered 0 P0, Email 0 P0 primary_recipient]\<rparr>)"
    by (simp add: classify_alert_eq handle_alerts_def alert_chain_def notify_boss_def
        pr_merge_roll_def io_defs getitem_def timedelta_seconds_def strftime_def
        CloudMonitor_init_def)
  from reachable.handled [where C = "\<lambda>_. True", OF reachable.init _ this]
  have r: "reachable (\<lambda>_. True) ?m" by simp
  with handle_alerts_total [OF r, of "\<lambda>n. 3000000 - int n" "1 / 20" "''c0ffee''" 600
      "1 / 100" io_start]
  show ?thesis by simp
qed

subsection \<open>The timestamps of an alert\<close>






section \<open>The log\<close>

lemma log_status_eq:
  "log_status clk lat fr lvl (m, w) =
     (m\<lparr>log_history :=
          (if length (log_history m) \<ge> 25920
           then tl (log_history m @ [Status (strftime (clk (ticks w))) lat fr lvl])
           else log_history m @ [Status (strftime (clk (ticks w))) lat fr lvl])\<rparr>,
      w\<lparr>ticks := Suc (ticks w),
        printed := printed w @ [Status (strftime (clk (ticks w))) lat fr lvl]\<rparr>)"
  by (simp add: log_status_def io_defs Let_def)

lemma log_status_bounded:
  assumes "length (log_history m) \<le> 25920" "log_status clk lat fr lvl (m, w) = (m', w')"
  shows "length (log_history m') \<le> 25920"
  using assms by (auto simp add: log_status_eq split: if_splits)

lemma last_window_snoc:
  "drop (length (xs @ [x]) - n) (xs @ [x]) =
     (if length (drop (length xs - n) xs) \<ge> n
      then tl (drop (length xs - n) xs @ [x]) else drop (length xs - n) xs @ [x])"
proof (cases "length xs < n")
  case True
  then show ?thesis by simp
next
  case False
  then have ge: "n \<le> length xs" by simp
  then have "drop (length (xs @ [x]) - n) (xs @ [x]) = drop (Suc (length xs - n)) (xs @ [x])"
    by (simp add: Suc_diff_le)
  also have "\<dots> = tl (drop (length xs - n) (xs @ [x]))"
    by (simp only: drop_Suc tl_drop)
  also have "\<dots> = tl (drop (length xs - n) xs @ [x])"
    by simp
  finally show ?thesis using ge by simp
qed

lemma list_all2_last: "list_all2 P xs ys \<Longrightarrow> xs \<noteq> [] \<Longrightarrow> P (last xs) (last ys)"
  by (induction rule: list_all2_induct) auto

lemma list_all2_tl: "list_all2 P xs ys \<Longrightarrow> list_all2 P (tl xs) (tl ys)"
  by (cases xs; cases ys; simp)

lemma monitor_loop_log:
  assumes "level_ok m" "list_all2 records (log_history m) (drop (length pre - 25920) pre)"
  shows "\<exists>m' w'. monitor_loop clk ds (m, w) = Inr (m', w') \<and>
     list_all2 records (log_history m') (drop (length (pre @ ds) - 25920) (pre @ ds))"
  using assms
proof (induction ds arbitrary: m w pre)
  case Nil
  then show ?case by simp
next
  case (Cons d ds)
  obtain lvl where cls: "classify_alert (d_latency d) (d_failure_rate d) = Inr lvl"
    by (simp add: classify_alert_eq)
  obtain m1 w1 where l: "log_status clk (d_latency d) (d_failure_rate d) lvl (m, w) = (m1, w1)"
    by (cases "log_status clk (d_latency d) (d_failure_rate d) lvl (m, w)")
  from l Cons.prems(1) have ok1: "level_ok m1"
    by (auto simp add: log_status_eq level_ok_def)
  from handle_alerts_returns [OF ok1] obtain m2 w2 where
    h: "handle_alerts clk (d_random d) (d_commit_hash d) (d_latency d) (d_failure_rate d) (m1, w1)
        = Inr (m2, w2)" by blast
  have ok2: "level_ok m2" using h ok1 by (rule handle_alerts_level_ok)
  have len: "length (log_history m) = length (drop (length pre - 25920) pre)"
    using Cons.prems(2) by (rule list_all2_lengthD)
  let ?e = "Status (strftime (clk (ticks w))) (d_latency d) (d_failure_rate d) lvl"
  have e: "records ?e d" using cls by simp
  have "list_all2 records (log_history m @ [?e]) (drop (length pre - 25920) pre @ [d])"
    using Cons.prems(2) e by (simp add: list_all2_appendI)
  then have "list_all2 records (log_history m1) (drop (length (pre @ [d]) - 25920) (pre @ [d]))"
    unfolding last_window_snoc using l len
    by (auto simp add: log_status_eq simp del: length_drop dest: list_all2_tl)
  then have "list_all2 records (log_history m2) (drop (length (pre @ [d]) - 25920) (pre @ [d]))"
    using handle_alerts_log_history [OF h] by simp
  from Cons.IH [OF ok2 this, of w2] cls l h show ?case by simp
qed


lemma reachable_log_bounded: "reachable C m \<Longrightarrow> length (log_history m) \<le> 25920"
proof (induction rule: reachable.induct)
  case init
  show ?case by (simp add: CloudMonitor_init_def)
next
  case (handled m clk rnd h lat fr w m' w')
  then show ?case by (simp add: handle_alerts_log_history)
next
  case (logged m clk lat fr lvl w m' w')
  then show ?case by (auto dest: log_status_bounded)
next
  case (resolved m clk w m' w')
  then show ?case
    by (auto simp add: resolve_alert_def io_defs split: option.splits)
qed

lemma monitor_system_log:
  "\<exists>m' w'. monitor_system clk ds = Inr (m', w') \<and>
     list_all2 records (log_history m') (drop (length ds - 25920) ds)"
  using monitor_loop_log [of CloudMonitor_init "[]" clk ds io_start]
  by (simp add: monitor_system_def level_ok_def CloudMonitor_init_def)

text \<open>
  Claim C8. The log of a reachable monitor has at most \<open>90 * 24 * 12 = 25920\<close> lines.
  \<^verbatim>\<open>log_status\<close> puts the new line last, and on a log within the capacity it removes
  the first line exactly when the log was full. After the monitoring loop has run on
  the draws \<open>ds\<close>, the log records, in order, the last \<open>25920\<close> of them (all of them
  if there are fewer). So after \<open>25920 + 1\<close> draws the log has exactly \<open>25920\<close> lines,
  which record the draws from the second on: the first is gone and the last line
  records the last draw.
\<close>

theorem log_history_window:
  "(reachable (\<lambda>_. True) m \<longrightarrow> length (log_history m) \<le> 90 * 24 * 12)
   \<and> last (log_history (fst (log_status clk lat fr lvl (m, w))))
        = Status (strftime (clk (ticks w))) lat fr lvl
   \<and> (length (log_history m) \<le> 90 * 24 * 12 \<longrightarrow>
        log_history (fst (log_status clk lat fr lvl (m, w)))
          = (if length (log_history m) = 90 * 24 * 12 then tl (log_history m) else log_history m)
            @ [Status (strftime (clk (ticks w))) lat fr lvl])
   \<and> (\<exists>m' w'. monitor_system clk ds = Inr (m', w')
        \<and> length (log_history m') = min (length ds) (90 * 24 * 12)
        \<and> list_all2 records (log_history m') (drop (length ds - 90 * 24 * 12) ds))
   \<and> (length ds = 90 * 24 * 12 + 1 \<longrightarrow>
        (\<exists>m' w'. monitor_system clk ds = Inr (m', w')
           \<and> length (log_history m') = 90 * 24 * 12
           \<and> list_all2 records (log_history m') (tl ds)
           \<and> records (last (log_history m')) (last ds)))"
proof -
  let ?e = "Status (strftime (clk (ticks w))) lat fr lvl"
  have a: "reachable (\<lambda>_. True) m \<longrightarrow> length (log_history m) \<le> 90 * 24 * 12"
    using reachable_log_bounded [of "\<lambda>_. True" m] by simp
  have b: "last (log_history (fst (log_status clk lat fr lvl (m, w)))) = ?e"
  proof (cases "log_history m")
    case Nil
    then show ?thesis by (simp add: log_status_eq)
  next
    case (Cons x xs)
    then show ?thesis by (simp add: log_status_eq)
  qed
  have c: "length (log_history m) \<le> 90 * 24 * 12 \<longrightarrow>
        log_history (fst (log_status clk lat fr lvl (m, w)))
          = (if length (log_history m) = 90 * 24 * 12 then tl (log_history m) else log_history m)
            @ [?e]"
    by (cases "log_history m") (auto simp add: log_status_eq)
  obtain m' w' where r: "monitor_system clk ds = Inr (m', w')"
    and l: "list_all2 records (log_history m') (drop (length ds - 25920) ds)"
    using monitor_system_log [of clk ds] by blast
  have len: "length (log_history m') = min (length ds) 25920"
    using list_all2_lengthD [OF l] by auto
  have d: "\<exists>m' w'. monitor_system clk ds = Inr (m', w')
        \<and> length (log_history m') = min (length ds) (90 * 24 * 12)
        \<and> list_all2 records (log_history m') (drop (length ds - 90 * 24 * 12) ds)"
    using r l len by simp
  have e: "\<exists>m' w'. monitor_system clk ds = Inr (m', w')
           \<and> length (log_history m') = 90 * 24 * 12
           \<and> list_all2 records (log_history m') (tl ds)
           \<and> records (last (log_history m')) (last ds)"
    if full: "length ds = 90 * 24 * 12 + 1"
  proof -
    from full have t: "drop (length ds - 25920) ds = tl ds" by (simp add: drop_Suc)
    with l have l': "list_all2 records (log_history m') (tl ds)" by simp
    from full len have n: "length (log_history m') = 25920" by simp
    then have ne: "log_history m' \<noteq> []" by auto
    from l' n have ne': "tl ds \<noteq> []" by auto
    have "records (last (log_history m')) (last (tl ds))"
      using l' ne by (rule list_all2_last)
    moreover have "last (tl ds) = last ds" using ne' by (cases ds) auto
    ultimately show ?thesis using r l' n by simp
  qed
  from a b c d e show ?thesis by blast
qed

text \<open>A new monitor, and \<open>25921\<close> draws of the sample \<open>(600, 0)\<close>.\<close>

theorem log_history_window_witness:
  "reachable (\<lambda>_. True) CloudMonitor_init
   \<and> length (replicate 25921 \<lparr>d_latency = 600, d_failure_rate = 0, d_random = 1 / 2, d_commit_hash = []\<rparr>)
       = 90 * 24 * 12 + 1
   \<and> length (log_history CloudMonitor_init) \<le> 90 * 24 * 12
   \<and> (\<exists>m' w'. monitor_system (\<lambda>n. int n)
          (replicate 25921 \<lparr>d_latency = 600, d_failure_rate = 0, d_random = 1 / 2, d_commit_hash = []\<rparr>)
          = Inr (m', w')
        \<and> length (log_history m') = 90 * 24 * 12
        \<and> records (last (log_history m'))
            \<lparr>d_latency = 600, d_failure_rate = 0, d_random = 1 / 2, d_commit_hash = []\<rparr>)"
proof -
  let ?d = "\<lparr>d_latency = 600, d_failure_rate = 0, d_random = 1 / 2, d_commit_hash = []\<rparr>"
  have len: "length (replicate 25921 ?d) = 90 * 24 * 12 + 1" by simp
  have lst: "last (replicate 25921 ?d) = ?d" by simp
  from log_history_window [where m = CloudMonitor_init and clk = "\<lambda>n. int n"
      and ds = "replicate 25921 ?d" and lat = 0 and fr = 0 and lvl = NO_ALERT
      and w = io_start]
  have "length (replicate 25921 ?d) = 90 * 24 * 12 + 1 \<longrightarrow>
        (\<exists>m' w'. monitor_system (\<lambda>n. int n) (replicate 25921 ?d) = Inr (m', w')
           \<and> length (log_history m') = 90 * 24 * 12
           \<and> list_all2 records (log_history m') (tl (replicate 25921 ?d))
           \<and> records (last (log_history m')) (last (replicate 25921 ?d)))"
    by (elim conjE)
  with len have "\<exists>m' w'. monitor_system (\<lambda>n. int n) (replicate 25921 ?d) = Inr (m', w')
           \<and> length (log_history m') = 90 * 24 * 12
           \<and> list_all2 records (log_history m') (tl (replicate 25921 ?d))
           \<and> records (last (log_history m')) (last (replicate 25921 ?d))"
    by (rule rev_mp)
  then obtain m' w' where r: "monitor_system (\<lambda>n. int n) (replicate 25921 ?d) = Inr (m', w')"
    "length (log_history m') = 90 * 24 * 12"
    and "records (last (log_history m')) (last (replicate 25921 ?d))" by blast
  with lst have "records (last (log_history m')) ?d" by (simp only:)
  with r have "\<exists>m' w'. monitor_system (\<lambda>n. int n) (replicate 25921 ?d) = Inr (m', w')
        \<and> length (log_history m') = 90 * 24 * 12 \<and> records (last (log_history m')) ?d"
    by blast
  moreover have "reachable (\<lambda>_. True) CloudMonitor_init" by (rule reachable.init)
  moreover have "length (log_history CloudMonitor_init) \<le> 90 * 24 * 12"
    by (simp add: CloudMonitor_init_def)
  ultimately show ?thesis using len by (intro conjI)
qed

end
